theory Spec2Isabelle
  imports
    Main
    "HOL-Library.Sublist"
    "HOL-Library.Char_ord"
    "HOL-Library.List_Lexorder"
    "HOL-Library.AList"
    "HOL-Library.Multiset"
begin

section \<open>Strings and numbers of the script\<close>

text \<open>
  The script \<^verbatim>\<open>static/script.js\<close> works on JavaScript strings and numbers. Strings are
  modelled as \<^typ>\<open>string\<close>: a \<^typ>\<open>char\<close> is the UTF-16 code unit of the same number, so the
  strings of the model are those whose code units are below 256, in the same order;
  numbers as \<^typ>\<open>int\<close>: levels, counts and status codes are integers far
  below \<open>10\<^sup>2\<^sup>1\<close>, where a template literal prints a number in plain decimal.
\<close>

function Number_toString_nat :: "nat \<Rightarrow> string" where
  "Number_toString_nat n =
     (if n < 10 then [''0123456789'' ! n]
      else Number_toString_nat (n div 10) @ [''0123456789'' ! (n mod 10)])"
  by pat_completeness auto
termination
  by (relation "measure id") auto

declare Number_toString_nat.simps [simp del]

text \<open>What \<^verbatim>\<open>`${n}`\<close> prints for an integer \<open>n\<close>.\<close>

definition Number_toString :: "int \<Rightarrow> string" where
  "Number_toString i =
     (if i < 0 then ''-'' @ Number_toString_nat (nat (- i)) else Number_toString_nat (nat i))"

text \<open>
  \<^verbatim>\<open>String.prototype.toLowerCase\<close> on code units below 256: the letters \<open>A\<close> to \<open>Z\<close> and
  the capital letters from 0xC0 to 0xDE (all but the multiplication sign 0xD7) move up by
  0x20, every other code unit stays, and the string is converted unit by unit.
\<close>

definition upper_case_letters :: string where
  "upper_case_letters =
     ''ABCDEFGHIJKLMNOPQRSTUVWXYZ'' @
     [CHR 0xC0, CHR 0xC1, CHR 0xC2, CHR 0xC3, CHR 0xC4, CHR 0xC5, CHR 0xC6, CHR 0xC7,
      CHR 0xC8, CHR 0xC9, CHR 0xCA, CHR 0xCB, CHR 0xCC, CHR 0xCD, CHR 0xCE, CHR 0xCF,
      CHR 0xD0, CHR 0xD1, CHR 0xD2, CHR 0xD3, CHR 0xD4, CHR 0xD5, CHR 0xD6,
      CHR 0xD8, CHR 0xD9, CHR 0xDA, CHR 0xDB, CHR 0xDC, CHR 0xDD, CHR 0xDE]"

definition lower_case_letters :: string where
  "lower_case_letters =
     ''abcdefghijklmnopqrstuvwxyz'' @
     [CHR 0xE0, CHR 0xE1, CHR 0xE2, CHR 0xE3, CHR 0xE4, CHR 0xE5, CHR 0xE6, CHR 0xE7,
      CHR 0xE8, CHR 0xE9, CHR 0xEA, CHR 0xEB, CHR 0xEC, CHR 0xED, CHR 0xEE, CHR 0xEF,
      CHR 0xF0, CHR 0xF1, CHR 0xF2, CHR 0xF3, CHR 0xF4, CHR 0xF5, CHR 0xF6,
      CHR 0xF8, CHR 0xF9, CHR 0xFA, CHR 0xFB, CHR 0xFC, CHR 0xFD, CHR 0xFE]"

definition toLowerCase_char :: "char \<Rightarrow> char" where
  "toLowerCase_char c =
     (case map_of (zip upper_case_letters lower_case_letters) c of
        Some l \<Rightarrow> l
      | None \<Rightarrow> c)"

definition toLowerCase :: "string \<Rightarrow> string" where
  "toLowerCase s = map toLowerCase_char s"

text \<open>\<^verbatim>\<open>s.includes(t)\<close>: \<open>t\<close> occurs in \<open>s\<close> at some position.\<close>

fun String_includes :: "string \<Rightarrow> string \<Rightarrow> bool" where
  "String_includes [] t = (t = [])"
| "String_includes (c # s) t = (prefix t (c # s) \<or> String_includes s t)"

text \<open>\<^verbatim>\<open>xs.join(sep)\<close> on an array of strings.\<close>

fun join :: "string \<Rightarrow> string list \<Rightarrow> string" where
  "join sep [] = []"
| "join sep [x] = x"
| "join sep (x # y # ys) = x @ sep @ join sep (y # ys)"

section \<open>Plain objects used as dictionaries\<close>

text \<open>
  \<^verbatim>\<open>selectedSkills\<close>, \<^verbatim>\<open>build.skills\<close>, \<^verbatim>\<open>build.target_skills\<close> and \<^verbatim>\<open>piece.slots\<close> are plain
  objects with number values. An object is the list of its own properties in insertion
  order. Reading \<^verbatim>\<open>obj[key]\<close> looks at the own properties first and then at
  \<^verbatim>\<open>Object.prototype\<close>, whose properties are functions (and, for \<^verbatim>\<open>__proto__\<close>, the
  prototype object itself); \<^verbatim>\<open>delete\<close>, \<^verbatim>\<open>Object.keys\<close>, \<^verbatim>\<open>Object.entries\<close> and
  \<^verbatim>\<open>for ... in\<close> see own properties only.
\<close>

type_synonym object = "(string \<times> int) list"

definition Object_prototype :: "string list" where
  "Object_prototype =
     [''constructor'', ''hasOwnProperty'', ''isPrototypeOf'', ''propertyIsEnumerable'',
      ''toLocaleString'', ''toString'', ''valueOf'', ''__proto__'',
      ''__defineGetter__'', ''__defineSetter__'', ''__lookupGetter__'', ''__lookupSetter__'']"

datatype jsval = Undefined | Number int | Inherited

definition get :: "object \<Rightarrow> string \<Rightarrow> jsval" where
  "get obj key =
     (case map_of obj key of
        Some n \<Rightarrow> Number n
      | None \<Rightarrow> if key \<in> set Object_prototype then Inherited else Undefined)"

text \<open>Truthiness: \<^verbatim>\<open>undefined\<close> and \<open>0\<close> are falsy, functions and objects are truthy.\<close>

fun truthy :: "jsval \<Rightarrow> bool" where
  "truthy Undefined = False"
| "truthy (Number n) = (n \<noteq> 0)"
| "truthy Inherited = True"

text \<open>
  \<^verbatim>\<open>a > b\<close> and \<^verbatim>\<open>a >= b\<close> with a number on the left: \<^verbatim>\<open>undefined\<close>, a function and an
  object convert to \<^verbatim>\<open>NaN\<close>, and every comparison with \<^verbatim>\<open>NaN\<close> is false.
\<close>

fun gt :: "int \<Rightarrow> jsval \<Rightarrow> bool" where
  "gt a (Number b) = (a > b)"
| "gt a _ = False"

fun ge :: "int \<Rightarrow> jsval \<Rightarrow> bool" where
  "ge a (Number b) = (a \<ge> b)"
| "ge a _ = False"

text \<open>\<^verbatim>\<open>v > 0\<close> with the value on the left.\<close>

fun positive :: "jsval \<Rightarrow> bool" where
  "positive (Number n) = (n > 0)"
| "positive _ = False"

text \<open>\<^verbatim>\<open>v || 0\<close>.\<close>

definition or_zero :: "jsval \<Rightarrow> jsval" where
  "or_zero v = (if truthy v then v else Number 0)"

section \<open>The page\<close>

record catalog_entry =
  entry_name :: string
  entry_level :: int
  entry_maxLevel :: int

datatype dropdown_content = No_skills_found | Options "catalog_entry list"

text \<open>
  The body of the one request the script sends, \<^verbatim>\<open>JSON.stringify({ skills: selectedSkills })\<close>
  to \<^verbatim>\<open>/api/optimize\<close>.
\<close>

record request =
  request_skills :: object

text \<open>
  The script's two variables and the properties of the elements it touches. \<open>fetches\<close> is
  the log of the calls of \<^verbatim>\<open>fetch('/api/optimize', ...)\<close>, \<open>outstanding\<close> the number of them
  whose promise chain has not settled.
\<close>

record page =
  allSkillsData :: "catalog_entry list"
  selectedSkills :: object
  skillSearchInput_value :: string
  skillDropdown :: dropdown_content
  skillDropdown_show :: bool
  selectedSkillsList :: "string list"
  optimizeButton_disabled :: bool
  loadingIndicator_display :: string
  resultsDiv_innerHTML :: string
  errorMessageDiv_textContent :: string
  errorMessageDiv_display :: string
  fetches :: "request list"
  outstanding :: nat

definition init :: page where
  "init = \<lparr> allSkillsData = [], selectedSkills = [], skillSearchInput_value = [],
            skillDropdown = Options [], skillDropdown_show = False, selectedSkillsList = [],
            optimizeButton_disabled = False, loadingIndicator_display = [],
            resultsDiv_innerHTML = [], errorMessageDiv_textContent = [],
            errorMessageDiv_display = [], fetches = [], outstanding = 0 \<rparr>"

subsection \<open>Selected skills\<close>

text \<open>
  One \<^verbatim>\<open>li\<close> per own property, labelled \<^verbatim>\<open>`${name} ${level}`\<close>, in the order of
  \<^verbatim>\<open>for ... in\<close>: insertion order, for names that are not array indices.
\<close>

definition renderSelectedSkills :: "page \<Rightarrow> page" where
  "renderSelectedSkills s =
     s\<lparr>selectedSkillsList :=
         map (\<lambda>(name, level). name @ '' '' @ Number_toString level) (selectedSkills s)\<rparr>"

definition addSkill :: "string \<Rightarrow> int \<Rightarrow> page \<Rightarrow> page" where
  "addSkill name level s =
     renderSelectedSkills
       (if \<not> truthy (get (selectedSkills s) name) \<or> gt level (get (selectedSkills s) name)
        then s\<lparr>selectedSkills := AList.update name level (selectedSkills s)\<rparr>
        else s)"

definition removeSkill :: "string \<Rightarrow> page \<Rightarrow> page" where
  "removeSkill name s =
     renderSelectedSkills (s\<lparr>selectedSkills := AList.delete name (selectedSkills s)\<rparr>)"

text \<open>The level stored for a name: the own property, if there is one.\<close>

definition stored :: "page \<Rightarrow> string \<Rightarrow> int option" where
  "stored s name = map_of (selectedSkills s) name"

subsection \<open>Catalog and dropdown\<close>

text \<open>An element of the array that \<^verbatim>\<open>/api/skills\<close> returns.\<close>

record skill_def =
  skill_name :: string
  max_level :: int

text \<open>The \<^verbatim>\<open>forEach\<close> and \<^verbatim>\<open>for\<close> loops of the catalog loader: one entry per level from 1.\<close>

definition expand :: "skill_def list \<Rightarrow> catalog_entry list" where
  "expand skills =
     concat (map (\<lambda>skill.
        map (\<lambda>i. \<lparr>entry_name = skill_name skill, entry_level = i,
                     entry_maxLevel = max_level skill\<rparr>)
          [1 .. max_level skill]) skills)"

definition skills_loaded :: "skill_def list \<Rightarrow> page \<Rightarrow> page" where
  "skills_loaded skills s = s\<lparr>allSkillsData := expand skills\<rparr>"

definition skills_failed :: "page \<Rightarrow> page" where
  "skills_failed s =
     s\<lparr>errorMessageDiv_textContent :=
         ''Error loading skills list. Please try refreshing the page.'',
       errorMessageDiv_display := ''block''\<rparr>"

text \<open>The label \<^verbatim>\<open>`${skill.name} ${skill.level}`\<close>.\<close>

definition label :: "catalog_entry \<Rightarrow> string" where
  "label skill = entry_name skill @ '' '' @ Number_toString (entry_level skill)"

definition filteredSkills :: "catalog_entry list \<Rightarrow> string \<Rightarrow> catalog_entry list" where
  "filteredSkills catalog filter_text =
     [skill \<leftarrow> catalog.
        String_includes (toLowerCase (label skill)) (toLowerCase filter_text)]"

definition populateDropdown :: "string \<Rightarrow> page \<Rightarrow> page" where
  "populateDropdown filter_text s =
     s\<lparr>skillDropdown :=
         (if length (filteredSkills (allSkillsData s) filter_text) = 0 then No_skills_found
          else Options (filteredSkills (allSkillsData s) filter_text)),
       skillDropdown_show := True\<rparr>"

text \<open>The listeners of the search input, of a dropdown option and of the document.\<close>

definition search_input :: "string \<Rightarrow> page \<Rightarrow> page" where
  "search_input v s = populateDropdown v (s\<lparr>skillSearchInput_value := v\<rparr>)"

definition option_click :: "catalog_entry \<Rightarrow> page \<Rightarrow> page" where
  "option_click skill s =
     (addSkill (entry_name skill) (entry_level skill) s)
       \<lparr>skillSearchInput_value := [], skillDropdown_show := False\<rparr>"

definition outside_click :: "page \<Rightarrow> page" where
  "outside_click s = s\<lparr>skillDropdown_show := False\<rparr>"

subsection \<open>The build and its display\<close>

text \<open>
  The response of \<^verbatim>\<open>/api/optimize\<close>, with the fields \<^verbatim>\<open>displayResults\<close> reads. A field the
  script guards with \<^verbatim>\<open>||\<close> or \<^verbatim>\<open>if\<close> is optional; the others are present, so
  \<^verbatim>\<open>displayResults\<close> throws nothing.
\<close>

record armor_piece =
  piece_type :: string
  piece_name :: string
  set_name :: string
  piece_skills :: "(string \<times> int) list"
  piece_slots :: "object option"

record talisman_item =
  talisman_name :: string
  talisman_skills :: "(string \<times> int) list"

record decoration_use =
  deco_count :: int
  deco_name :: string
  deco_slot_level :: int

record build =
  defense :: int
  armor :: "armor_piece list"
  talisman :: "talisman_item option"
  decorations :: "decoration_use list"
  skills :: "object option"
  target_skills :: "object option"
  remaining_weighted_slots :: int

text \<open>
  A value inside a template literal. The script prints a property it read only where that
  is a number (\<^verbatim>\<open>level_1\<close> to \<^verbatim>\<open>level_4\<close> are no properties of \<^verbatim>\<open>Object.prototype\<close>, and the
  target is printed only when \<^verbatim>\<open>target > 0\<close>).
\<close>

fun toString :: "jsval \<Rightarrow> string" where
  "toString Undefined = ''undefined''"
| "toString (Number n) = Number_toString n"
| "toString Inherited = ''function () { [native code] }''"

definition skillsStr :: "(string \<times> int) list \<Rightarrow> string" where
  "skillsStr ss =
     (if length ss > 0
      then join '', '' (map (\<lambda>(name, level). name @ '' +'' @ Number_toString level) ss)
      else ''None'')"

definition slotsStr :: "armor_piece \<Rightarrow> string" where
  "slotsStr piece =
     (let slots = (case piece_slots piece of Some obj \<Rightarrow> obj | None \<Rightarrow> [])
      in ''L1:'' @ toString (or_zero (get slots ''level_1''))
         @ '' L2:'' @ toString (or_zero (get slots ''level_2''))
         @ '' L3:'' @ toString (or_zero (get slots ''level_3''))
         @ '' L4:'' @ toString (or_zero (get slots ''level_4'')))"

definition piece_html :: "armor_piece \<Rightarrow> string" where
  "piece_html piece =
     ''<li><strong>'' @ piece_type piece @ '':</strong> '' @ piece_name piece
     @ '' (Set: '' @ set_name piece @ '')<br/>&nbsp;&nbsp;Skills: ''
     @ skillsStr (piece_skills piece)
     @ ''<br/>&nbsp;&nbsp;Slots: '' @ slotsStr piece @ ''</li>''"

definition talisman_html :: "talisman_item option \<Rightarrow> string" where
  "talisman_html t =
     (case t of
        Some t \<Rightarrow> ''<p>'' @ talisman_name t @ ''<br/>&nbsp;&nbsp;Skills: ''
                  @ skillsStr (talisman_skills t) @ ''</p>''
      | None \<Rightarrow> ''<p>None</p>'')"

definition decorations_html :: "decoration_use list \<Rightarrow> string" where
  "decorations_html ds =
     (if length ds > 0
      then ''<ul>''
           @ concat (map (\<lambda>item. ''<li>'' @ Number_toString (deco_count item) @ ''x ''
                           @ deco_name item @ '' (L''
                           @ Number_toString (deco_slot_level item) @ '')</li>'') ds)
           @ ''</ul>''
      else ''<p>None</p>'')"

text \<open>
  \<^verbatim>\<open>Object.entries(finalSkills).sort()\<close>: without a comparison function \<^verbatim>\<open>sort\<close> orders the
  elements by their conversion to a string, which for the pair \<^verbatim>\<open>[skill, level]\<close> is
  \<^verbatim>\<open>skill + "," + level\<close>; the sort is stable.
\<close>

definition entry_toString :: "string \<times> int \<Rightarrow> string" where
  "entry_toString e = fst e @ '','' @ Number_toString (snd e)"

definition sorted_entries :: "object \<Rightarrow> (string \<times> int) list" where
  "sorted_entries obj = sort_key entry_toString obj"

text \<open>The body of the loop over the sorted entries.\<close>

definition skill_html :: "object \<Rightarrow> string \<times> int \<Rightarrow> string" where
  "skill_html targetSkills e =
     (case e of (skill, level) \<Rightarrow>
        if level > 0
        then (let target = or_zero (get targetSkills skill);
                  met_str = (if ge level target then ''MET'' else ''BELOW'');
                  status = (if positive target
                            then ''(Target: '' @ toString target @ '' - '' @ met_str @ '')''
                            else [])
              in ''<li>'' @ skill @ '': '' @ Number_toString level @ '' '' @ status @ ''</li>'')
        else [])"

definition resulting_skills_html :: "build \<Rightarrow> string" where
  "resulting_skills_html b =
     (let finalSkills = (case skills b of Some obj \<Rightarrow> obj | None \<Rightarrow> []);
          targetSkills = (case target_skills b of Some obj \<Rightarrow> obj | None \<Rightarrow> [])
      in concat (map (skill_html targetSkills) (sorted_entries finalSkills)))"

definition htmlContent :: "build \<Rightarrow> string" where
  "htmlContent b =
     ''<h3>Optimal Build Found</h3>''
     @ ''<p><strong>Total Defense:</strong> '' @ Number_toString (defense b) @ ''</p>''
     @ ''<h4>Armor Pieces:</h4><ul>'' @ concat (map piece_html (armor b)) @ ''</ul>''
     @ ''<h4>Talisman:</h4>'' @ talisman_html (talisman b)
     @ ''<h4>Decorations Used:</h4>'' @ decorations_html (decorations b)
     @ ''<h4>Resulting Skills:</h4><ul>'' @ resulting_skills_html b @ ''</ul>''
     @ ''<p><strong>Total Weighted Slot Value Remaining:</strong> ''
     @ Number_toString (remaining_weighted_slots b) @ ''</p>''"

definition displayResults :: "build \<Rightarrow> page \<Rightarrow> page" where
  "displayResults b s = s\<lparr>resultsDiv_innerHTML := htmlContent b\<rparr>"

subsection \<open>The optimization request\<close>

text \<open>
  What \<^verbatim>\<open>fetch\<close> and \<^verbatim>\<open>response.json()\<close> deliver. The promise of \<^verbatim>\<open>fetch\<close> is rejected with an
  error message or resolved with a response; a response is not \<^verbatim>\<open>ok\<close>, with its status
  and a body that is an object with an optional \<^verbatim>\<open>error\<close> string, or \<^verbatim>\<open>ok\<close>, with a build
  as its body; \<^verbatim>\<open>response.json()\<close> is rejected when the body is no JSON.
\<close>

datatype 'a json = Json_rejected string | Json 'a

datatype response = Not_ok int "string option json" | Ok "build json"

datatype fetch_result = Rejected string | Resolved response

text \<open>\<^verbatim>\<open>Object.keys\<close>: the names of the own properties.\<close>

definition Object_keys :: "object \<Rightarrow> string list" where
  "Object_keys obj = map fst obj"

definition optimizeButton_click :: "page \<Rightarrow> page" where
  "optimizeButton_click s =
     (if length (Object_keys (selectedSkills s)) = 0
      then s\<lparr>errorMessageDiv_textContent := ''Please select at least one skill.'',
             errorMessageDiv_display := ''block'',
             resultsDiv_innerHTML := []\<rparr>
      else s\<lparr>loadingIndicator_display := ''block'',
             errorMessageDiv_display := ''none'',
             resultsDiv_innerHTML := [],
             optimizeButton_disabled := True,
             fetches := fetches s @ [\<lparr>request_skills = selectedSkills s\<rparr>],
             outstanding := Suc (outstanding s)\<rparr>)"

text \<open>\<^verbatim>\<open>err.error || d\<close>: a missing field and the empty string are falsy.\<close>

definition or_else :: "string option \<Rightarrow> string \<Rightarrow> string" where
  "or_else v d = (case v of None \<Rightarrow> d | Some e \<Rightarrow> if e = [] then d else e)"

text \<open>
  The first \<^verbatim>\<open>then\<close>: the message of the error it throws (\<open>Inl\<close>), or the build it passes
  on.
\<close>

fun then_response :: "response \<Rightarrow> string + build" where
  "then_response (Not_ok status (Json_rejected m)) = Inl m"
| "then_response (Not_ok status (Json err)) =
     Inl (or_else err (''HTTP error! status: '' @ Number_toString status))"
| "then_response (Ok (Json_rejected m)) = Inl m"
| "then_response (Ok (Json b)) = Inr b"

definition catch_handler :: "string \<Rightarrow> page \<Rightarrow> page" where
  "catch_handler message s =
     s\<lparr>errorMessageDiv_textContent := ''Optimization failed: '' @ message,
       errorMessageDiv_display := ''block''\<rparr>"

definition finally_handler :: "page \<Rightarrow> page" where
  "finally_handler s =
     s\<lparr>loadingIndicator_display := ''none'',
       optimizeButton_disabled := False,
       outstanding := outstanding s - 1\<rparr>"

text \<open>The chain \<^verbatim>\<open>fetch(...).then(...).then(...).catch(...).finally(...)\<close> once it settles.\<close>

definition settle :: "fetch_result \<Rightarrow> page \<Rightarrow> page" where
  "settle r s =
     finally_handler
       (case (case r of Rejected m \<Rightarrow> Inl m | Resolved resp \<Rightarrow> then_response resp) of
          Inl message \<Rightarrow> catch_handler message s
        | Inr b \<Rightarrow> displayResults b s)"

subsection \<open>Runs of the page\<close>

text \<open>
  The states the page reaches, one event at a time. The browser dispatches no click on a
  disabled button, and a request settles only while it is outstanding.
\<close>

inductive reachable :: "page \<Rightarrow> bool" where
  start: "reachable init"
| loaded: "reachable s \<Longrightarrow> reachable (skills_loaded defs s)"
| load_failed: "reachable s \<Longrightarrow> reachable (skills_failed s)"
| input: "reachable s \<Longrightarrow> reachable (search_input v s)"
| option: "reachable s \<Longrightarrow> skillDropdown s = Options es \<Longrightarrow> skill \<in> set es \<Longrightarrow>
           reachable (option_click skill s)"
| remove: "reachable s \<Longrightarrow> name \<in> set (Object_keys (selectedSkills s)) \<Longrightarrow>
           reachable (removeSkill name s)"
| outside: "reachable s \<Longrightarrow> reachable (outside_click s)"
| optimize: "reachable s \<Longrightarrow> \<not> optimizeButton_disabled s \<Longrightarrow>
             reachable (optimizeButton_click s)"
| settled: "reachable s \<Longrightarrow> 0 < outstanding s \<Longrightarrow> reachable (settle r s)"

section \<open>Notions of the specification\<close>





text \<open>
  The specification's words for a target level: the level the target skills hold for the
  skill, and 0 when the skill or the whole mapping is missing.
\<close>

definition target_level :: "build \<Rightarrow> string \<Rightarrow> int" where
  "target_level b skill =
     (case target_skills b of
        None \<Rightarrow> 0
      | Some targets \<Rightarrow> (case map_of targets skill of None \<Rightarrow> 0 | Some n \<Rightarrow> n))"

text \<open>
  The specification's words for a slot count: the number under the slot-level key, and 0
  when the key or the whole slots structure is missing.
\<close>

definition slot_count :: "armor_piece \<Rightarrow> string \<Rightarrow> int" where
  "slot_count piece key =
     (case piece_slots piece of
        None \<Rightarrow> 0
      | Some slots \<Rightarrow> (case map_of slots key of None \<Rightarrow> 0 | Some n \<Rightarrow> n))"

section \<open>Selection state: adding and removing\<close>

lemma stored_renderSelectedSkills: "stored (renderSelectedSkills s) name = stored s name"
  by (simp add: stored_def renderSelectedSkills_def)

lemma stored_removeSkill:
  "stored (removeSkill name s) n = (if n = name then None else stored s n)"
  by (simp add: stored_def removeSkill_def renderSelectedSkills_def delete_conv)

lemma stored_addSkill_absent:
  "name \<notin> set Object_prototype \<Longrightarrow> stored s name = None \<Longrightarrow>
   stored (addSkill name level s) name = Some level"
  by (simp add: stored_def addSkill_def renderSelectedSkills_def get_def update_conv')

lemma stored_addSkill_present:
  "stored s name = Some l \<Longrightarrow> 1 \<le> l \<Longrightarrow>
   stored (addSkill name level s) name = Some (max l level)"
  by (simp add: stored_def addSkill_def renderSelectedSkills_def get_def update_conv' max_def)

lemma selectedSkills_addSkill_not_higher:
  "stored s name = Some l \<Longrightarrow> 1 \<le> l \<Longrightarrow> level \<le> l \<Longrightarrow>
   selectedSkills (addSkill name level s) = selectedSkills s"
  by (simp add: stored_def addSkill_def renderSelectedSkills_def get_def)

lemma selectedSkills_addSkill_inherited:
  "name \<in> set Object_prototype \<Longrightarrow> stored s name = None \<Longrightarrow>
   selectedSkills (addSkill name level s) = selectedSkills s"
  by (simp add: stored_def addSkill_def renderSelectedSkills_def get_def)

lemma stored_addSkill_other:
  "n \<noteq> name \<Longrightarrow> stored (addSkill name level s) n = stored s n"
  by (simp add: stored_def addSkill_def renderSelectedSkills_def update_conv')

text \<open>
  For a name that \<^verbatim>\<open>Object.prototype\<close> does not define, a run of \<^verbatim>\<open>addSkill\<close> calls after a
  removal stores the greatest level passed.
\<close>

lemma stored_addSkill_calls:
  "name \<notin> set Object_prototype \<Longrightarrow> \<forall>l \<in> set (l0 # ls). 1 \<le> l \<Longrightarrow>
   stored s name = None \<or> stored s name = Some l0 \<Longrightarrow>
   stored (foldl (\<lambda>s l. addSkill name l s) (addSkill name l0 s) ls) name
     = Some (Max (set (l0 # ls)))"
proof (induction ls arbitrary: l0 s rule: rev_induct)
  case Nil
  then show ?case
    by (auto simp: stored_addSkill_absent stored_addSkill_present)
next
  case (snoc x xs)
  have "stored (foldl (\<lambda>s l. addSkill name l s) (addSkill name l0 s) xs) name
          = Some (Max (set (l0 # xs)))"
    using snoc.prems by (intro snoc.IH) auto
  moreover have "1 \<le> Max (set (l0 # xs))"
    using snoc.prems(2) by (simp add: Max_ge_iff)
  ultimately have "stored (foldl (\<lambda>s l. addSkill name l s) (addSkill name l0 s) (xs @ [x])) name
          = Some (max (Max (set (l0 # xs))) x)"
    by (simp add: stored_addSkill_present)
  moreover have "max (Max (set (l0 # xs))) x = Max (set (l0 # xs @ [x]))"
  proof -
    have "Max (insert x (set (l0 # xs))) = max x (Max (set (l0 # xs)))"
      by (rule Max_insert) simp_all
    moreover have "set (l0 # xs @ [x]) = insert x (set (l0 # xs))"
      by auto
    ultimately show ?thesis
      by (simp only: max.commute)
  qed
  ultimately show ?case by simp
qed

lemma stored_removeSkill_addSkill:
  "name \<notin> set Object_prototype \<Longrightarrow>
   stored (addSkill name level (removeSkill name s)) name = Some level"
  by (simp add: stored_addSkill_absent stored_removeSkill)

text \<open>
  Claim C1. The level stored for a name is the greatest level passed to \<^verbatim>\<open>addSkill\<close> for it
  since its last removal; \<^verbatim>\<open>addSkill\<close> inserts when the name is absent. The script does not
  do so for a name that \<^verbatim>\<open>Object.prototype\<close> defines: on the empty selection
  \<^verbatim>\<open>selectedSkills["constructor"]\<close> is the inherited function, which is truthy and not less
  than any level, so \<^verbatim>\<open>addSkill("constructor", 3)\<close> stores nothing.
\<close>

theorem addSkill_constructor_not_stored:
  "stored init ''constructor'' = None \<and>
   stored (addSkill ''constructor'' 3 init) ''constructor'' = None \<and>
   selectedSkills (addSkill ''constructor'' 3 init) = []"
  by (simp add: stored_def addSkill_def renderSelectedSkills_def init_def get_def
      Object_prototype_def)

theorem addSkill_constructor_not_stored_witness:
  "stored (addSkill ''constructor'' 3 init) ''constructor'' \<noteq> Some 3"
  using addSkill_constructor_not_stored by simp

text \<open>
  No name that \<^verbatim>\<open>Object.prototype\<close> defines becomes an own property of
  \<^verbatim>\<open>selectedSkills\<close> in a run of the page: \<^verbatim>\<open>addSkill\<close> is the only writer, and it stores nothing
  for such a name.
\<close>

lemma keys_update: "fst ` set (AList.update k v al) = insert k (fst ` set al)"
  by (induction al) auto

lemma Object_keys_addSkill:
  "set (Object_keys (selectedSkills (addSkill name level s)))
     \<subseteq> set (Object_keys (selectedSkills s)) \<union> ({name} - set Object_prototype)"
proof (cases "name \<in> set Object_prototype \<and> map_of (selectedSkills s) name = None")
  case True
  then have "selectedSkills (addSkill name level s) = selectedSkills s"
    by (simp add: addSkill_def renderSelectedSkills_def get_def)
  then show ?thesis by simp
next
  case False
  then have "name \<notin> set Object_prototype \<or> name \<in> fst ` set (selectedSkills s)"
    by (auto simp: map_of_eq_None_iff)
  moreover have "set (Object_keys (selectedSkills (addSkill name level s)))
      \<subseteq> insert name (set (Object_keys (selectedSkills s)))"
    by (simp add: addSkill_def renderSelectedSkills_def Object_keys_def keys_update
        subset_insertI)
  ultimately show ?thesis
    by (auto simp: Object_keys_def)
qed

lemma Object_keys_removeSkill:
  "set (Object_keys (selectedSkills (removeSkill name s)))
     \<subseteq> set (Object_keys (selectedSkills s))"
  by (auto simp: removeSkill_def renderSelectedSkills_def Object_keys_def AList.delete_eq)

lemma selectedSkills_unchanged:
  "selectedSkills (skills_loaded defs s) = selectedSkills s"
  "selectedSkills (skills_failed s) = selectedSkills s"
  "selectedSkills (search_input v s) = selectedSkills s"
  "selectedSkills (outside_click s) = selectedSkills s"
  "selectedSkills (optimizeButton_click s) = selectedSkills s"
  "selectedSkills (settle r s) = selectedSkills s"
  by (simp_all add: skills_loaded_def skills_failed_def search_input_def populateDropdown_def
      outside_click_def optimizeButton_click_def settle_def finally_handler_def
      catch_handler_def displayResults_def split: fetch_result.split sum.split)

lemma selectedSkills_option_click:
  "selectedSkills (option_click skill s)
     = selectedSkills (addSkill (entry_name skill) (entry_level skill) s)"
  by (simp add: option_click_def)

lemma reachable_keys:
  "reachable s \<Longrightarrow> set (Object_keys (selectedSkills s)) \<inter> set Object_prototype = {}"
proof (induction rule: reachable.induct)
  case start
  show ?case by (simp add: init_def Object_keys_def)
next
  case (option s es skill)
  with Object_keys_addSkill [of "entry_name skill" "entry_level skill" s]
  show ?case unfolding selectedSkills_option_click by blast
next
  case (remove s name)
  with Object_keys_removeSkill [of name s] show ?case by blast
qed (simp_all add: selectedSkills_unchanged)

lemma removeSkill_absent:
  "name \<notin> set (Object_keys (selectedSkills s)) \<Longrightarrow>
   selectedSkills (removeSkill name s) = selectedSkills s"
  by (simp add: removeSkill_def renderSelectedSkills_def Object_keys_def)

text \<open>
  Claim C2. In every state the page reaches, \<^verbatim>\<open>removeSkill(name)\<close> followed by
  \<^verbatim>\<open>addSkill(name, level)\<close> stores exactly \<open>level\<close> for the name, whatever was stored before,
  for every name the remove button can pass (an own property of the selection) and for
  every name that \<^verbatim>\<open>Object.prototype\<close> does not define; \<^verbatim>\<open>removeSkill\<close> deletes the entry of
  the name, leaves the other entries, and changes nothing when the name has no entry.
\<close>

theorem removeSkill_addSkill_stores_level:
  "reachable s \<Longrightarrow>
     (name \<in> set (Object_keys (selectedSkills s)) \<or> name \<notin> set Object_prototype \<longrightarrow>
        stored (addSkill name level (removeSkill name s)) name = Some level) \<and>
     (\<forall>n. stored (removeSkill name s) n = (if n = name then None else stored s n)) \<and>
     (name \<notin> set (Object_keys (selectedSkills s)) \<longrightarrow>
        selectedSkills (removeSkill name s) = selectedSkills s)"
proof -
  assume "reachable s"
  then have "name \<notin> set Object_prototype" if "name \<in> set (Object_keys (selectedSkills s))"
    using that reachable_keys by blast
  then show ?thesis
    by (simp add: stored_removeSkill_addSkill stored_removeSkill removeSkill_absent)
qed

theorem removeSkill_addSkill_stores_level_witness:
  "stored
     (addSkill ''Attack Boost'' 1
        (removeSkill ''Attack Boost''
           (option_click \<lparr>entry_name = ''Attack Boost'', entry_level = 2, entry_maxLevel = 2\<rparr>
              (search_input ''boost 2''
                 (skills_loaded [\<lparr>skill_name = ''Attack Boost'', max_level = 2\<rparr>] init)))))
     ''Attack Boost'' = Some 1"
proof -
  let ?e = "\<lparr>entry_name = ''Attack Boost'', entry_level = 2, entry_maxLevel = 2\<rparr>"
  let ?s0 = "skills_loaded [\<lparr>skill_name = ''Attack Boost'', max_level = 2\<rparr>] init"
  let ?s1 = "search_input ''boost 2'' ?s0"
  let ?s2 = "option_click ?e ?s1"
  have a: "allSkillsData ?s1 =
      [\<lparr>entry_name = ''Attack Boost'', entry_level = 1, entry_maxLevel = 2\<rparr>, ?e]"
    by (simp add: skills_loaded_def expand_def upto_rec1 search_input_def populateDropdown_def)
  have "filteredSkills (allSkillsData ?s1) ''boost 2'' = [?e]"
    unfolding a
    by (simp add: filteredSkills_def label_def Number_toString_def
        Number_toString_nat.simps toLowerCase_def toLowerCase_char_def
        upper_case_letters_def lower_case_letters_def)
  then have d: "skillDropdown ?s1 = Options [?e]"
    by (simp add: search_input_def populateDropdown_def)
  have "reachable ?s1"
    by (intro reachable.input reachable.loaded reachable.start)
  then have r: "reachable ?s2"
    using d by (rule reachable.option) simp
  have "selectedSkills ?s2 = [(''Attack Boost'', 2)]"
    by (simp add: option_click_def addSkill_def renderSelectedSkills_def search_input_def
        populateDropdown_def skills_loaded_def init_def get_def Object_prototype_def)
  then have "''Attack Boost'' \<in> set (Object_keys (selectedSkills ?s2))"
    by (simp add: Object_keys_def)
  with removeSkill_addSkill_stores_level [OF r, of "''Attack Boost''" 1]
  show ?thesis by blast
qed

section \<open>The catalog filter\<close>









lemma toLowerCase_example:
  "toLowerCase [CHR 0xC9, CHR ''l'', CHR ''A'', CHR 0xD7, CHR ''3'']
     = [CHR 0xE9, CHR ''l'', CHR ''a'', CHR 0xD7, CHR ''3'']"
  by (simp add: toLowerCase_def toLowerCase_char_def upper_case_letters_def
      lower_case_letters_def)




section \<open>Submitting\<close>

text \<open>
  Claim C4. A click on the submit button with an empty selection issues no request and
  shows the message asking for a skill, with the earlier results cleared; a request is
  issued only when the selection is not empty.
\<close>

theorem optimizeButton_click_empty_selection:
  "(selectedSkills s = [] \<longrightarrow>
      optimizeButton_click s =
        s\<lparr>errorMessageDiv_textContent := ''Please select at least one skill.'',
          errorMessageDiv_display := ''block'',
          resultsDiv_innerHTML := []\<rparr> \<and>
      fetches (optimizeButton_click s) = fetches s \<and>
      outstanding (optimizeButton_click s) = outstanding s) \<and>
   (selectedSkills s \<noteq> [] \<longrightarrow>
      fetches (optimizeButton_click s) = fetches s @ [\<lparr>request_skills = selectedSkills s\<rparr>])"
  by (simp add: optimizeButton_click_def Object_keys_def)

theorem optimizeButton_click_empty_selection_witness:
  "errorMessageDiv_textContent (optimizeButton_click init)
     = ''Please select at least one skill.'' \<and>
   fetches (optimizeButton_click init) = [] \<and>
   fetches (optimizeButton_click (addSkill ''Attack Boost'' 3 init))
     = [\<lparr>request_skills = [(''Attack Boost'', 3)]\<rparr>]"
proof -
  have 1: "selectedSkills init = []" and 2: "fetches init = []"
    by (simp_all add: init_def)
  have 3: "selectedSkills (addSkill ''Attack Boost'' 3 init) = [(''Attack Boost'', 3)]"
    and 4: "fetches (addSkill ''Attack Boost'' 3 init) = []"
    by (simp_all add: addSkill_def renderSelectedSkills_def init_def get_def Object_prototype_def)
  from optimizeButton_click_empty_selection [of init]
    optimizeButton_click_empty_selection [of "addSkill ''Attack Boost'' 3 init"] 1 2 3 4
  show ?thesis by simp
qed

text \<open>
  Claim C5, as stated, fails twice. A failure body whose \<^verbatim>\<open>error\<close> field is the empty string
  does not surface that string but the generic message with the status; and what the error
  area shows for \<^verbatim>\<open>{error: "infeasible target"}\<close> is not exactly that message: the
  \<^verbatim>\<open>catch\<close> puts \<^verbatim>\<open>Optimization failed: \<close> before it.
\<close>

theorem failure_message_counterexample:
  "then_response (Not_ok 500 (Json (Some []))) = Inl ''HTTP error! status: 500'' \<and>
   errorMessageDiv_textContent
     (settle (Resolved (Not_ok 500 (Json (Some []))))
        (optimizeButton_click (addSkill ''Attack Boost'' 3 init)))
     = ''Optimization failed: HTTP error! status: 500'' \<and>
   errorMessageDiv_textContent
     (settle (Resolved (Not_ok 400 (Json (Some ''infeasible target''))))
        (optimizeButton_click (addSkill ''Attack Boost'' 3 init)))
     = ''Optimization failed: infeasible target''"
  by (simp add: settle_def catch_handler_def finally_handler_def or_else_def
      Number_toString_def Number_toString_nat.simps)

text \<open>
  Claim C5, amended. When the response is not \<^verbatim>\<open>ok\<close> and its body parses: a non-empty
  \<^verbatim>\<open>error\<close> field is the thrown error's message, verbatim, and the error area shows it
  after \<^verbatim>\<open>Optimization failed: \<close>; a missing or empty field gives the generic message
  \<^verbatim>\<open>HTTP error! status: <code>\<close>, shown after the same prefix.
\<close>

theorem failure_message:
  "(e \<noteq> [] \<longrightarrow>
      then_response (Not_ok status (Json (Some e))) = Inl e \<and>
      errorMessageDiv_textContent (settle (Resolved (Not_ok status (Json (Some e)))) s)
        = ''Optimization failed: '' @ e) \<and>
   (err = None \<or> err = Some [] \<longrightarrow>
      then_response (Not_ok status (Json err))
        = Inl (''HTTP error! status: '' @ Number_toString status) \<and>
      errorMessageDiv_textContent (settle (Resolved (Not_ok status (Json err))) s)
        = ''Optimization failed: HTTP error! status: '' @ Number_toString status)"
  by (auto simp: settle_def catch_handler_def finally_handler_def or_else_def)

theorem failure_message_witness:
  "then_response (Not_ok 400 (Json (Some ''infeasible target''))) = Inl ''infeasible target'' \<and>
   then_response (Not_ok 404 (Json None)) = Inl ''HTTP error! status: 404''"
  using failure_message [of "''infeasible target''" 400 init None]
    failure_message [of "''x''" 404 init None]
  by (simp add: Number_toString_def Number_toString_nat.simps)

text \<open>
  Claim C10. An \<^verbatim>\<open>error\<close> field that is the empty string is treated as a missing one: the
  message is the generic one with the status.
\<close>

theorem empty_error_field_is_absent:
  "then_response (Not_ok status (Json (Some [])))
     = Inl (''HTTP error! status: '' @ Number_toString status) \<and>
   then_response (Not_ok status (Json (Some []))) = then_response (Not_ok status (Json None)) \<and>
   errorMessageDiv_textContent (settle (Resolved (Not_ok status (Json (Some [])))) s)
     = ''Optimization failed: HTTP error! status: '' @ Number_toString status"
  by (simp add: settle_def catch_handler_def finally_handler_def or_else_def)

theorem empty_error_field_is_absent_witness:
  "then_response (Not_ok 500 (Json (Some []))) = Inl ''HTTP error! status: 500''"
  using empty_error_field_is_absent [of 500 init]
  by (simp add: Number_toString_def Number_toString_nat.simps)

section \<open>The submit button while a request is outstanding\<close>

lemma outstanding_unchanged [simp]:
  "outstanding (skills_loaded defs s) = outstanding s"
  "outstanding (skills_failed s) = outstanding s"
  "outstanding (search_input v s) = outstanding s"
  "outstanding (option_click skill s) = outstanding s"
  "outstanding (removeSkill name s) = outstanding s"
  "outstanding (outside_click s) = outstanding s"
  by (simp_all add: skills_loaded_def skills_failed_def search_input_def populateDropdown_def
      option_click_def addSkill_def removeSkill_def renderSelectedSkills_def outside_click_def)

lemma optimizeButton_disabled_unchanged [simp]:
  "optimizeButton_disabled (skills_loaded defs s) = optimizeButton_disabled s"
  "optimizeButton_disabled (skills_failed s) = optimizeButton_disabled s"
  "optimizeButton_disabled (search_input v s) = optimizeButton_disabled s"
  "optimizeButton_disabled (option_click skill s) = optimizeButton_disabled s"
  "optimizeButton_disabled (removeSkill name s) = optimizeButton_disabled s"
  "optimizeButton_disabled (outside_click s) = optimizeButton_disabled s"
  by (simp_all add: skills_loaded_def skills_failed_def search_input_def populateDropdown_def
      option_click_def addSkill_def removeSkill_def renderSelectedSkills_def outside_click_def)

lemma settle_cleanup:
  "\<not> optimizeButton_disabled (settle r s) \<and>
   loadingIndicator_display (settle r s) = ''none'' \<and>
   outstanding (settle r s) = outstanding s - 1"
  by (simp add: settle_def finally_handler_def catch_handler_def displayResults_def
      split: fetch_result.split sum.split)

lemma reachable_outstanding:
  "reachable s \<Longrightarrow> (0 < outstanding s \<longrightarrow> optimizeButton_disabled s) \<and> outstanding s \<le> 1"
proof (induction rule: reachable.induct)
  case start
  show ?case by (simp add: init_def)
next
  case (optimize s)
  then have "outstanding s = 0" by auto
  then show ?case by (simp add: optimizeButton_click_def)
next
  case (settled s r)
  then show ?case by (simp add: settle_cleanup)
qed simp_all

text \<open>
  Claim C9. In every state the page reaches, the submit button is disabled while a request
  is outstanding, so at most one is; a click that submits disables the button and shows
  the loading indicator; and however the request settles (the build, a failure response,
  a rejected \<^verbatim>\<open>fetch\<close> or an unreadable body), the \<^verbatim>\<open>finally\<close> step enables the button and
  hides the indicator.
\<close>

theorem optimizeButton_disabled_while_outstanding:
  "reachable s \<Longrightarrow>
     (0 < outstanding s \<longrightarrow> optimizeButton_disabled s) \<and>
     outstanding s \<le> 1 \<and>
     (\<not> optimizeButton_disabled s \<and> selectedSkills s \<noteq> [] \<longrightarrow>
        optimizeButton_disabled (optimizeButton_click s) \<and>
        loadingIndicator_display (optimizeButton_click s) = ''block'' \<and>
        outstanding (optimizeButton_click s) = 1) \<and>
     (\<forall>r. \<not> optimizeButton_disabled (settle r s) \<and>
          loadingIndicator_display (settle r s) = ''none'' \<and>
          outstanding (settle r s) = outstanding s - 1)"
proof -
  assume r: "reachable s"
  note inv = reachable_outstanding [OF r]
  have "outstanding (optimizeButton_click s) = 1"
    if "\<not> optimizeButton_disabled s" "selectedSkills s \<noteq> []"
  proof -
    from inv that have "outstanding s = 0" by auto
    with that show ?thesis by (simp add: optimizeButton_click_def Object_keys_def)
  qed
  moreover have "optimizeButton_disabled (optimizeButton_click s) \<and>
      loadingIndicator_display (optimizeButton_click s) = ''block''"
    if "selectedSkills s \<noteq> []"
    using that by (simp add: optimizeButton_click_def Object_keys_def)
  ultimately show ?thesis
    using inv settle_cleanup by blast
qed

theorem optimizeButton_disabled_while_outstanding_witness:
  "optimizeButton_disabled
     (optimizeButton_click
        (option_click \<lparr>entry_name = ''Attack Boost'', entry_level = 1, entry_maxLevel = 1\<rparr>
           (search_input ''boost''
              (skills_loaded [\<lparr>skill_name = ''Attack Boost'', max_level = 1\<rparr>] init)))) \<and>
   \<not> optimizeButton_disabled
     (settle (Rejected ''Failed to fetch'')
        (optimizeButton_click
           (option_click \<lparr>entry_name = ''Attack Boost'', entry_level = 1, entry_maxLevel = 1\<rparr>
              (search_input ''boost''
                 (skills_loaded [\<lparr>skill_name = ''Attack Boost'', max_level = 1\<rparr>] init)))))"
proof -
  let ?e0 = "\<lparr>entry_name = ''Attack Boost'', entry_level = 1, entry_maxLevel = 1\<rparr>"
  let ?s0 = "skills_loaded [\<lparr>skill_name = ''Attack Boost'', max_level = 1\<rparr>] init"
  let ?s1 = "search_input ''boost'' ?s0"
  let ?s2 = "option_click ?e0 ?s1"
  let ?s3 = "optimizeButton_click ?s2"
  have d: "skillDropdown ?s1 = Options [?e0]"
    by (simp add: skills_loaded_def expand_def init_def search_input_def
        populateDropdown_def filteredSkills_def label_def Number_toString_def
        Number_toString_nat.simps toLowerCase_def toLowerCase_char_def
        upper_case_letters_def lower_case_letters_def)
  have "reachable ?s0"
    by (intro reachable.loaded reachable.start)
  then have "reachable ?s1"
    by (rule reachable.input)
  then have r2: "reachable ?s2"
    using d by (rule reachable.option) simp
  have n2: "\<not> optimizeButton_disabled ?s2"
    by (simp add: init_def skills_loaded_def)
  have k2: "selectedSkills ?s2 \<noteq> []"
    by (simp add: option_click_def addSkill_def renderSelectedSkills_def search_input_def
        populateDropdown_def skills_loaded_def init_def get_def Object_prototype_def)
  from r2 n2 have r3: "reachable ?s3"
    by (rule reachable.optimize)
  from optimizeButton_disabled_while_outstanding [OF r2] n2 k2
  have "outstanding ?s3 = 1" by blast
  with optimizeButton_disabled_while_outstanding [OF r3]
  show ?thesis by simp
qed

section \<open>Displaying the build\<close>

lemma sorted_entries_sorted:
  "sorted (map entry_toString (sorted_entries obj)) \<and> set (sorted_entries obj) = set obj"
  by (simp add: sorted_entries_def)

text \<open>
  Claim C6. The resulting skills are listed in lexicographic order of the skill names. The
  script sorts the entries with the default comparison, by the string \<^verbatim>\<open>skill + "," + level\<close>,
  and a space sorts before a comma: \<^verbatim>\<open>{"Guard": 3, "Guard Up": 1}\<close> is listed with
  \<^verbatim>\<open>Guard Up\<close> first, although \<^verbatim>\<open>Guard\<close> is the smaller name.
\<close>

theorem sorted_entries_Guard_after_Guard_Up:
  "sorted_entries [(''Guard'', 3), (''Guard Up'', 1)] = [(''Guard Up'', 1), (''Guard'', 3)] \<and>
   ''Guard'' < ''Guard Up'' \<and>
   resulting_skills_html
     \<lparr>defense = 0, armor = [], talisman = None, decorations = [],
      skills = Some [(''Guard'', 3), (''Guard Up'', 1)], target_skills = None,
      remaining_weighted_slots = 0\<rparr>
     = ''<li>Guard Up: 1 </li><li>Guard: 3 </li>''"
  by (simp add: sorted_entries_def entry_toString_def resulting_skills_html_def skill_html_def
      get_def or_zero_def Object_prototype_def Number_toString_def Number_toString_nat.simps)

lemma skill_html_status:
  "skill_html targetSkills (skill, level) =
     (if level \<le> 0 then []
      else ''<li>'' @ skill @ '': '' @ Number_toString level @ '' ''
           @ (case map_of targetSkills skill of
                None \<Rightarrow> []
              | Some target \<Rightarrow>
                  if target > 0
                  then ''(Target: '' @ Number_toString target @ '' - ''
                       @ (if level \<ge> target then ''MET'' else ''BELOW'') @ '')''
                  else [])
           @ ''</li>'')"
  by (simp add: skill_html_def get_def or_zero_def Let_def split: option.split)

lemma skill_html_target_level:
  "skill_html (case target_skills b of Some obj \<Rightarrow> obj | None \<Rightarrow> []) e =
     (case e of (skill, level) \<Rightarrow>
        if level \<le> 0 then []
        else ''<li>'' @ skill @ '': '' @ Number_toString level @ '' ''
             @ (if target_level b skill > 0
                then ''(Target: '' @ Number_toString (target_level b skill) @ '' - ''
                     @ (if level \<ge> target_level b skill then ''MET'' else ''BELOW'') @ '')''
                else [])
             @ ''</li>'')"
  by (cases e) (simp add: skill_html_status target_level_def split: option.split)

lemma resulting_skills_html_target_level:
  "resulting_skills_html b =
     concat (map (\<lambda>(skill, level).
        if level \<le> 0 then []
        else ''<li>'' @ skill @ '': '' @ Number_toString level @ '' ''
             @ (if target_level b skill > 0
                then ''(Target: '' @ Number_toString (target_level b skill) @ '' - ''
                     @ (if level \<ge> target_level b skill then ''MET'' else ''BELOW'') @ '')''
                else [])
             @ ''</li>'')
       (sorted_entries (case skills b of Some obj \<Rightarrow> obj | None \<Rightarrow> [])))"
  unfolding resulting_skills_html_def Let_def skill_html_target_level ..

text \<open>
  Claim C7. The result area that \<^verbatim>\<open>displayResults\<close> writes lists, under
  \<^verbatim>\<open>Resulting Skills\<close>, the entries of the resulting skills (each once, in the sorted order; no
  entry when the mapping is missing): an entry with a level of 0 or less is skipped; any
  other is shown as \<^verbatim>\<open>skill: level\<close>, followed by \<^verbatim>\<open>(Target: t - MET)\<close> or
  \<^verbatim>\<open>(Target: t - BELOW)\<close> exactly when the target level \<open>t\<close> of the skill, 0 when the target
  skills or the skill in them are missing, is above 0, with \<^verbatim>\<open>MET\<close> when the level is at least
  \<open>t\<close>.
\<close>

theorem displayResults_resulting_skills:
  "resultsDiv_innerHTML (displayResults b s) =
     ''<h3>Optimal Build Found</h3>''
     @ ''<p><strong>Total Defense:</strong> '' @ Number_toString (defense b) @ ''</p>''
     @ ''<h4>Armor Pieces:</h4><ul>'' @ concat (map piece_html (armor b)) @ ''</ul>''
     @ ''<h4>Talisman:</h4>'' @ talisman_html (talisman b)
     @ ''<h4>Decorations Used:</h4>'' @ decorations_html (decorations b)
     @ ''<h4>Resulting Skills:</h4><ul>''
     @ concat (map (\<lambda>(skill, level).
          if level \<le> 0 then []
          else ''<li>'' @ skill @ '': '' @ Number_toString level @ '' ''
               @ (if target_level b skill > 0
                  then ''(Target: '' @ Number_toString (target_level b skill) @ '' - ''
                       @ (if level \<ge> target_level b skill then ''MET'' else ''BELOW'') @ '')''
                  else [])
               @ ''</li>'')
         (sorted_entries (case skills b of Some obj \<Rightarrow> obj | None \<Rightarrow> [])))
     @ ''</ul>''
     @ ''<p><strong>Total Weighted Slot Value Remaining:</strong> ''
     @ Number_toString (remaining_weighted_slots b) @ ''</p>'' \<and>
   mset (sorted_entries (case skills b of Some obj \<Rightarrow> obj | None \<Rightarrow> []))
     = mset (case skills b of Some obj \<Rightarrow> obj | None \<Rightarrow> [])"
proof -
  have "resultsDiv_innerHTML (displayResults b s) = htmlContent b"
    by (simp add: displayResults_def)
  then show ?thesis
    unfolding htmlContent_def resulting_skills_html_target_level
    by (simp add: sorted_entries_def)
qed


theorem displayResults_resulting_skills_witness:
  "resultsDiv_innerHTML
     (displayResults
        \<lparr>defense = 120, armor = [], talisman = None, decorations = [],
         skills = Some [(''Guard'', 2), (''Attack'', 5), (''Evade'', 0), (''Focus'', 3)],
         target_skills = Some [(''Attack'', 7), (''Guard'', 2), (''Focus'', 0)],
         remaining_weighted_slots = 0\<rparr> init)
     = ''<h3>Optimal Build Found</h3><p><strong>Total Defense:</strong> 120</p><h4>Armor Pieces:</h4><ul></ul><h4>Talisman:</h4><p>None</p><h4>Decorations Used:</h4><p>None</p><h4>Resulting Skills:</h4><ul><li>Attack: 5 (Target: 7 - BELOW)</li><li>Focus: 3 </li><li>Guard: 2 (Target: 2 - MET)</li></ul><p><strong>Total Weighted Slot Value Remaining:</strong> 0</p>'' \<and>
   resultsDiv_innerHTML
     (displayResults
        \<lparr>defense = 120, armor = [], talisman = None, decorations = [],
         skills = Some [(''Attack'', 5)], target_skills = None,
         remaining_weighted_slots = 0\<rparr> init)
     = ''<h3>Optimal Build Found</h3><p><strong>Total Defense:</strong> 120</p><h4>Armor Pieces:</h4><ul></ul><h4>Talisman:</h4><p>None</p><h4>Decorations Used:</h4><p>None</p><h4>Resulting Skills:</h4><ul><li>Attack: 5 </li></ul><p><strong>Total Weighted Slot Value Remaining:</strong> 0</p>''"
  using displayResults_resulting_skills
      [of "\<lparr>defense = 120, armor = [], talisman = None, decorations = [],
         skills = Some [(''Guard'', 2), (''Attack'', 5), (''Evade'', 0), (''Focus'', 3)],
         target_skills = Some [(''Attack'', 7), (''Guard'', 2), (''Focus'', 0)],
         remaining_weighted_slots = 0\<rparr>" init]
    displayResults_resulting_skills
      [of "\<lparr>defense = 120, armor = [], talisman = None, decorations = [],
         skills = Some [(''Attack'', 5)], target_skills = None,
         remaining_weighted_slots = 0\<rparr>" init]
  by (simp add: target_level_def sorted_entries_def entry_toString_def talisman_html_def
      decorations_html_def Number_toString_def Number_toString_nat.simps)

lemma slot_text:
  "key \<notin> set Object_prototype \<Longrightarrow>
   toString (or_zero (get (case piece_slots piece of Some obj \<Rightarrow> obj | None \<Rightarrow> []) key))
     = Number_toString (slot_count piece key)"
  by (simp add: slot_count_def get_def or_zero_def split: option.split)

lemma level_keys:
  "''level_1'' \<notin> set Object_prototype" "''level_2'' \<notin> set Object_prototype"
  "''level_3'' \<notin> set Object_prototype" "''level_4'' \<notin> set Object_prototype"
  by (simp_all add: Object_prototype_def)

lemma slotsStr_slot_count:
  "slotsStr piece =
     ''L1:'' @ Number_toString (slot_count piece ''level_1'')
     @ '' L2:'' @ Number_toString (slot_count piece ''level_2'')
     @ '' L3:'' @ Number_toString (slot_count piece ''level_3'')
     @ '' L4:'' @ Number_toString (slot_count piece ''level_4'')"
  unfolding slotsStr_def Let_def by (simp only: slot_text level_keys not_False_eq_True)

lemma piece_html_slot_count:
  "piece_html =
     (\<lambda>piece. ''<li><strong>'' @ piece_type piece @ '':</strong> '' @ piece_name piece
        @ '' (Set: '' @ set_name piece @ '')<br/>&nbsp;&nbsp;Skills: ''
        @ skillsStr (piece_skills piece)
        @ ''<br/>&nbsp;&nbsp;Slots: ''
        @ ''L1:'' @ Number_toString (slot_count piece ''level_1'')
        @ '' L2:'' @ Number_toString (slot_count piece ''level_2'')
        @ '' L3:'' @ Number_toString (slot_count piece ''level_3'')
        @ '' L4:'' @ Number_toString (slot_count piece ''level_4'')
        @ ''</li>'')"
  by (rule ext) (simp add: piece_html_def slotsStr_slot_count)

text \<open>
  Claim C8. The result area that \<^verbatim>\<open>displayResults\<close> writes has, for every armor piece of
  the build in order, an item that ends with the slot line \<^verbatim>\<open>L1:<n> L2:<n> L3:<n> L4:<n>\<close>
  of the counts of the slot levels 1 to 4, where a missing key counts as 0: for the empty
  slots object and for a piece without slots every count is 0.
\<close>

theorem displayResults_armor_slots:
  "resultsDiv_innerHTML (displayResults b s) =
     ''<h3>Optimal Build Found</h3>''
     @ ''<p><strong>Total Defense:</strong> '' @ Number_toString (defense b) @ ''</p>''
     @ ''<h4>Armor Pieces:</h4><ul>''
     @ concat (map (\<lambda>piece.
          ''<li><strong>'' @ piece_type piece @ '':</strong> '' @ piece_name piece
          @ '' (Set: '' @ set_name piece @ '')<br/>&nbsp;&nbsp;Skills: ''
          @ skillsStr (piece_skills piece)
          @ ''<br/>&nbsp;&nbsp;Slots: ''
          @ ''L1:'' @ Number_toString (slot_count piece ''level_1'')
          @ '' L2:'' @ Number_toString (slot_count piece ''level_2'')
          @ '' L3:'' @ Number_toString (slot_count piece ''level_3'')
          @ '' L4:'' @ Number_toString (slot_count piece ''level_4'')
          @ ''</li>'') (armor b))
     @ ''</ul>''
     @ ''<h4>Talisman:</h4>'' @ talisman_html (talisman b)
     @ ''<h4>Decorations Used:</h4>'' @ decorations_html (decorations b)
     @ ''<h4>Resulting Skills:</h4><ul>'' @ resulting_skills_html b @ ''</ul>''
     @ ''<p><strong>Total Weighted Slot Value Remaining:</strong> ''
     @ Number_toString (remaining_weighted_slots b) @ ''</p>'' \<and>
   slot_count (piece\<lparr>piece_slots := Some []\<rparr>) key = 0 \<and>
   slot_count (piece\<lparr>piece_slots := None\<rparr>) key = 0"
proof -
  have "resultsDiv_innerHTML (displayResults b s) = htmlContent b"
    by (simp add: displayResults_def)
  then show ?thesis
    unfolding htmlContent_def piece_html_slot_count
    by (simp add: slot_count_def)
qed

theorem displayResults_armor_slots_witness:
  "resultsDiv_innerHTML
     (displayResults
        \<lparr>defense = 120,
         armor = [\<lparr>piece_type = ''Head'', piece_name = ''Helm'', set_name = ''Alloy'',
                   piece_skills = [(''Attack'', 1)], piece_slots = Some []\<rparr>,
                  \<lparr>piece_type = ''Chest'', piece_name = ''Mail'', set_name = ''Alloy'',
                   piece_skills = [], piece_slots = Some [(''level_2'', 1)]\<rparr>],
         talisman = None, decorations = [], skills = None, target_skills = None,
         remaining_weighted_slots = 0\<rparr> init)
     = ''<h3>Optimal Build Found</h3><p><strong>Total Defense:</strong> 120</p><h4>Armor Pieces:</h4><ul><li><strong>Head:</strong> Helm (Set: Alloy)<br/>&nbsp;&nbsp;Skills: Attack +1<br/>&nbsp;&nbsp;Slots: L1:0 L2:0 L3:0 L4:0</li><li><strong>Chest:</strong> Mail (Set: Alloy)<br/>&nbsp;&nbsp;Skills: None<br/>&nbsp;&nbsp;Slots: L1:0 L2:1 L3:0 L4:0</li></ul><h4>Talisman:</h4><p>None</p><h4>Decorations Used:</h4><p>None</p><h4>Resulting Skills:</h4><ul></ul><p><strong>Total Weighted Slot Value Remaining:</strong> 0</p>''"
  using displayResults_armor_slots
      [of "\<lparr>defense = 120,
         armor = [\<lparr>piece_type = ''Head'', piece_name = ''Helm'', set_name = ''Alloy'',
                   piece_skills = [(''Attack'', 1)], piece_slots = Some []\<rparr>,
                  \<lparr>piece_type = ''Chest'', piece_name = ''Mail'', set_name = ''Alloy'',
                   piece_skills = [], piece_slots = Some [(''level_2'', 1)]\<rparr>],
         talisman = None, decorations = [], skills = None, target_skills = None,
         remaining_weighted_slots = 0\<rparr>" init]
  by (simp add: slot_count_def skillsStr_def talisman_html_def decorations_html_def
      resulting_skills_html_def sorted_entries_def Number_toString_def
      Number_toString_nat.simps)

end
